theory Spec2Isabelle
  imports Complex_Main
begin

section \<open>Python values\<close>

text \<open>
  The bot keeps its orders as Python dictionaries whose keys vary from caller to caller, so
  an order is a finite map from key to value. A value is one of the JSON-serialisable
  Python values the handlers store.
\<close>

datatype pyval = PNone | PBool bool | PInt int | PFloat rat | PStr string

datatype py_error = KeyError | TypeError | NameError | IOError | ValueError | OverflowError

type_synonym pydict = "string \<rightharpoonup> pyval"

text \<open>\<open>d[k]\<close>: a missing key raises KeyError.\<close>

definition getitem :: "pydict \<Rightarrow> string \<Rightarrow> py_error + pyval" where
  "getitem d k = (case d k of None \<Rightarrow> Inl KeyError | Some v \<Rightarrow> Inr v)"

subsection \<open>Floating point\<close>

text \<open>
  A Python float is an IEEE 754 binary64 number. The finite ones are rationals, and every
  arithmetic operation returns the exact result rounded to the nearest binary64 number,
  ties to the even significand. \<open>fl\<close> is that rounding; infinities and NaN (results of
  magnitude \<open>2^1024\<close> and more) are outside the model.
\<close>

fun bitlen_nat :: "nat \<Rightarrow> nat" where
  "bitlen_nat n = (if n = 0 then 0 else Suc (bitlen_nat (n div 2)))"

declare bitlen_nat.simps [simp del]

definition pow2 :: "int \<Rightarrow> rat" where
  "pow2 k = (if 0 \<le> k then 2 ^ nat k else 1 / 2 ^ nat (- k))"

text \<open>\<open>ilog2 a\<close> is the integer \<open>e\<close> with \<open>2^e \<le> a < 2^(e+1)\<close>, for \<open>a > 0\<close>.\<close>

definition ilog2 :: "rat \<Rightarrow> int" where
  "ilog2 a =
     (if 1 \<le> a then int (bitlen_nat (nat \<lfloor>a\<rfloor>)) - 1
      else (let k = int (bitlen_nat (nat \<lfloor>1 / a\<rfloor>)) - 1
            in if pow2 k = 1 / a then - k else - k - 1))"

text \<open>Rounding to the nearest integer, ties to the even one.\<close>

definition round_half_even :: "rat \<Rightarrow> int" where
  "round_half_even x =
     (let f = \<lfloor>x\<rfloor>; d = x - of_int f
      in if d < 1 / 2 then f
         else if 1 / 2 < d then f + 1
         else if even f then f else f + 1)"

definition fl :: "rat \<Rightarrow> rat" where
  "fl x =
     (if x = 0 then 0
      else (let a = \<bar>x\<bar>;
                e = max (ilog2 a) (- 1022);
                u = pow2 (e - 52)
            in sgn x * of_int (round_half_even (a / u)) * u))"

definition fadd :: "rat \<Rightarrow> rat \<Rightarrow> rat" where
  "fadd a b = fl (a + b)"

definition fsub :: "rat \<Rightarrow> rat \<Rightarrow> rat" where
  "fsub a b = fl (a - b)"

definition fmul :: "rat \<Rightarrow> rat \<Rightarrow> rat" where
  "fmul a b = fl (a * b)"

definition fdiv :: "rat \<Rightarrow> rat \<Rightarrow> rat" where
  "fdiv a b = fl (a / b)"

text \<open>\<open>float(i)\<close> for an integer \<open>i\<close>.\<close>

definition float_of_int :: "int \<Rightarrow> rat" where
  "float_of_int i = fl (of_int i)"

text \<open>\<open>int(x)\<close> for a float \<open>x\<close>: truncation towards zero.\<close>

definition int_of_float :: "rat \<Rightarrow> int" where
  "int_of_float x = (if 0 \<le> x then \<lfloor>x\<rfloor> else \<lceil>x\<rceil>)"

text \<open>
  \<open>round(x, 2)\<close>: CPython rounds the exact value of \<open>x\<close> to two decimals, ties to even,
  and returns the binary64 number nearest to that decimal.
\<close>

definition round2 :: "rat \<Rightarrow> rat" where
  "round2 x = fl (of_int (round_half_even (x * 100)) / 100)"


section \<open>The JSON store (\<open>src/services/db.py\<close>)\<close>

record purchase =
  p_order_id :: string
  p_amount :: pyval
  p_date :: string

text \<open>A user record has the keys \<open>get_user\<close> creates it with.\<close>

record user =
  user_id :: int
  coins :: rat
  total_referrals :: int
  total_earned :: rat
  referred_by :: "int option"
  joined_at :: string
  purchases :: "purchase list"
  language :: string
  email :: "string option"
  subscription_plan :: "string option"
  subscription_service :: "string option"
  subscription_expiry :: "string option"
  subscription_status :: string

datatype dbfile = UsersFile | OrdersFile

datatype filedata = UsersData "int \<rightharpoonup> user" | OrdersData "pydict list"

text \<open>
  What a backing file holds: the JSON text of a table, or only the first \<open>n\<close> characters
  of that text, when the file was opened for writing (mode \<open>'w'\<close> empties it) and the write
  did not go through.
\<close>

datatype 'a file_text = Complete 'a | Prefix 'a nat

text \<open>
  The \<open>Database\<close> object: the two in-memory tables, their dirty flags, and (as \<open>disk\<close>)
  the content of the two backing files. The user table is keyed by \<open>str(user_id)\<close>, which
  is one-to-one with the identifier, so the model keys it by the identifier. \<open>err_log\<close> collects
  the files whose write error was logged.
\<close>

record database =
  users :: "int \<rightharpoonup> user"
  orders :: "pydict list"
  users_dirty :: bool
  orders_dirty :: bool
  disk :: "dbfile \<rightharpoonup> filedata file_text"
  err_log :: "dbfile list"

text \<open>
  How one call of \<open>_write_file\<close> goes. \<open>Written\<close>: serialisation, \<open>open\<close> and \<open>write\<close> all
  succeed. \<open>Fails progress\<close>: one of them raises an exception of class \<open>Exception\<close> (an
  I/O error, a value \<open>json.dumps\<close> cannot serialise). \<open>Cancelled progress\<close>: the task is
  cancelled at one of the \<open>await\<close>s; \<open>asyncio.CancelledError\<close> is a \<open>BaseException\<close>, which
  \<open>except Exception\<close> does not catch. \<open>progress\<close> is \<open>None\<close> when the file was not opened
  yet, and \<open>Some n\<close> when it was opened and \<open>n\<close> characters of the new text reached it.
\<close>

datatype write_outcome = Written | Fails "nat option" | Cancelled "nat option"

definition opened :: "nat option \<Rightarrow> dbfile \<Rightarrow> filedata \<Rightarrow> database \<Rightarrow> database" where
  "opened progress filepath data db =
     (case progress of
        None \<Rightarrow> db
      | Some n \<Rightarrow> db\<lparr>disk := (disk db)(filepath \<mapsto> Prefix data n)\<rparr>)"

text \<open>
  \<open>_write_file\<close>: serialisation and write happen inside \<open>try\<close>; \<open>except Exception\<close> logs
  the error and the function returns normally. The first component of the result tells
  whether the function returned (\<open>True\<close>) or was left by a \<open>CancelledError\<close> (\<open>False\<close>).
\<close>

definition write_file ::
  "write_outcome \<Rightarrow> dbfile \<Rightarrow> filedata \<Rightarrow> database \<Rightarrow> bool \<times> database" where
  "write_file outcome filepath data db =
     (case outcome of
        Written \<Rightarrow> (True, db\<lparr>disk := (disk db)(filepath \<mapsto> Complete data)\<rparr>)
      | Fails progress \<Rightarrow>
          (True, (opened progress filepath data db)\<lparr>err_log := err_log db @ [filepath]\<rparr>)
      | Cancelled progress \<Rightarrow> (False, opened progress filepath data db))"

text \<open>
  \<open>_save_dirty_data\<close>; \<open>io f\<close> is how the write of file \<open>f\<close> goes. The flag of a table is
  reset by the statement after the \<open>await\<close> of its write, whatever the write did; only an
  exception that leaves \<open>_write_file\<close> skips it, and the rest of the function with it.
\<close>

definition save_dirty_data :: "(dbfile \<Rightarrow> write_outcome) \<Rightarrow> database \<Rightarrow> bool \<times> database" where
  "save_dirty_data io db =
     (case (if users_dirty db
            then (case write_file (io UsersFile) UsersFile (UsersData (users db)) db of
                    (True, db') \<Rightarrow> (True, db'\<lparr>users_dirty := False\<rparr>)
                  | (False, db') \<Rightarrow> (False, db'))
            else (True, db)) of
        (False, db1) \<Rightarrow> (False, db1)
      | (True, db1) \<Rightarrow>
          if orders_dirty db1
          then (case write_file (io OrdersFile) OrdersFile (OrdersData (orders db1)) db1 of
                  (True, db') \<Rightarrow> (True, db'\<lparr>orders_dirty := False\<rparr>)
                | (False, db') \<Rightarrow> (False, db'))
          else (True, db1))"

subsection \<open>User operations\<close>

definition new_user :: "int \<Rightarrow> string \<Rightarrow> user" where
  "new_user uid now =
     \<lparr>user_id = uid, coins = 0, total_referrals = 0, total_earned = 0,
      referred_by = None, joined_at = now, purchases = [], language = ''en'',
      email = None, subscription_plan = None, subscription_service = None,
      subscription_expiry = None, subscription_status = ''none''\<rparr>"

definition get_user :: "int \<Rightarrow> string \<Rightarrow> database \<Rightarrow> user \<times> database" where
  "get_user uid now db =
     (case users db uid of
        Some u \<Rightarrow> (u, db)
      | None \<Rightarrow> (new_user uid now,
                 db\<lparr>users := (users db)(uid \<mapsto> new_user uid now), users_dirty := True\<rparr>))"


text \<open>Python truth value of the \<open>referred_by\<close> field: \<open>None\<close> and \<open>0\<close> are false.\<close>

definition truthy_id :: "int option \<Rightarrow> bool" where
  "truthy_id r = (case r of None \<Rightarrow> False | Some i \<Rightarrow> i \<noteq> 0)"

definition set_referrer :: "int \<Rightarrow> int \<Rightarrow> database \<Rightarrow> bool \<times> database" where
  "set_referrer uid referrer_id db =
     (case users db uid of
        Some u \<Rightarrow>
          (if \<not> truthy_id (referred_by u)
           then (True, db\<lparr>users := (users db)(uid \<mapsto> u\<lparr>referred_by := Some referrer_id\<rparr>),
                          users_dirty := True\<rparr>)
           else (False, db))
      | None \<Rightarrow> (False, db))"

definition add_coins :: "int \<Rightarrow> rat \<Rightarrow> database \<Rightarrow> bool \<times> database" where
  "add_coins uid amount db =
     (case users db uid of
        Some u \<Rightarrow>
          (True, db\<lparr>users := (users db)(uid \<mapsto>
                          u\<lparr>coins := fadd (coins u) amount,
                            total_earned := fadd (total_earned u) amount\<rparr>),
                      users_dirty := True\<rparr>)
      | None \<Rightarrow> (False, db))"

definition increment_referral_count :: "int \<Rightarrow> database \<Rightarrow> bool \<times> database" where
  "increment_referral_count uid db =
     (case users db uid of
        Some u \<Rightarrow>
          (True, db\<lparr>users := (users db)(uid \<mapsto> u\<lparr>total_referrals := total_referrals u + 1\<rparr>),
                      users_dirty := True\<rparr>)
      | None \<Rightarrow> (False, db))"


subsection \<open>Order operations\<close>

text \<open>The format \<open>{n:06d}\<close>: decimal digits, padded with zeros to six places.\<close>

fun str_of_nat :: "nat \<Rightarrow> string" where
  "str_of_nat n =
     (if n < 10 then [''0123456789'' ! n]
      else str_of_nat (n div 10) @ [''0123456789'' ! (n mod 10)])"

declare str_of_nat.simps [simp del]

definition fmt06 :: "nat \<Rightarrow> string" where
  "fmt06 n = replicate (6 - length (str_of_nat n)) (CHR ''0'') @ str_of_nat n"

text \<open>
  \<open>create_order\<close>: the literal \<open>{"order_id": .., "created_at": .., "status": "pending",
  **order_data}\<close> lets a key of \<open>order_data\<close> replace the one written before it.
\<close>

definition create_order :: "pydict \<Rightarrow> string \<Rightarrow> database \<Rightarrow> string \<times> database" where
  "create_order order_data now db =
     (let order_id = ''FBP'' @ fmt06 (length (orders db) + 1);
          order = [''order_id'' \<mapsto> PStr order_id,
                   ''created_at'' \<mapsto> PStr now,
                   ''status'' \<mapsto> PStr ''pending''] ++ order_data
      in (order_id, db\<lparr>orders := orders db @ [order], orders_dirty := True\<rparr>))"

text \<open>\<open>get_order\<close>: the first order of the list with that identifier.\<close>

fun find_order :: "pydict list \<Rightarrow> string \<Rightarrow> py_error + pydict option" where
  "find_order [] oid = Inr None"
| "find_order (order # rest) oid =
     (case getitem order ''order_id'' of
        Inl e \<Rightarrow> Inl e
      | Inr v \<Rightarrow> if v = PStr oid then Inr (Some order) else find_order rest oid)"

definition get_order :: "string \<Rightarrow> database \<Rightarrow> py_error + pydict option" where
  "get_order oid db = find_order (orders db) oid"

text \<open>\<open>update_order\<close>: \<open>order.update(updates)\<close> on the first order with that identifier.\<close>

fun update_first :: "pydict list \<Rightarrow> string \<Rightarrow> pydict \<Rightarrow> py_error + pydict list option" where
  "update_first [] oid updates = Inr None"
| "update_first (order # rest) oid updates =
     (case getitem order ''order_id'' of
        Inl e \<Rightarrow> Inl e
      | Inr v \<Rightarrow>
          if v = PStr oid then Inr (Some ((order ++ updates) # rest))
          else (case update_first rest oid updates of
                  Inl e \<Rightarrow> Inl e
                | Inr None \<Rightarrow> Inr None
                | Inr (Some rest') \<Rightarrow> Inr (Some (order # rest'))))"

definition update_order :: "string \<Rightarrow> pydict \<Rightarrow> database \<Rightarrow> py_error + bool \<times> database" where
  "update_order oid updates db =
     (case update_first (orders db) oid updates of
        Inl e \<Rightarrow> Inl e
      | Inr None \<Rightarrow> Inr (False, db)
      | Inr (Some os) \<Rightarrow> Inr (True, db\<lparr>orders := os, orders_dirty := True\<rparr>))"

section \<open>Handlers\<close>

text \<open>
  What a handler sends through the Telegram gateway is kept as a list of notices; the
  wording of the messages is not modelled. A handler returns the store it leaves behind,
  the notices it sent, and the exception it ended with, if any: a Python exception leaves
  the mutations made before it in place.
\<close>

datatype notice =
    Unauthorized | OrderNotFound | AlreadyProcessed
  | ApprovedCaption | PaymentApproved
  | RejectedCaption | PaymentRejected
  | CommissionEarned int rat
  | DetailsReceived | DetailsForAdmin
  | ScreenshotReceived | VerificationRequest
  | OrderExpiredNote | UploadPrompt
  | OrderCancelled
  | Warning int
  | PaymentTimeExpired
  | FreeActivated | FreeForAdmin

record result =
  res_db :: database
  res_out :: "notice list"
  res_err :: "py_error option"

definition returned :: "database \<Rightarrow> notice list \<Rightarrow> result" where
  "returned db out = \<lparr>res_db = db, res_out = out, res_err = None\<rparr>"

definition raised :: "database \<Rightarrow> notice list \<Rightarrow> py_error \<Rightarrow> result" where
  "raised db out e = \<lparr>res_db = db, res_out = out, res_err = Some e\<rparr>"

text \<open>All of the keys \<open>ks\<close> can be read from the dictionary.\<close>

definition has_keys :: "pydict \<Rightarrow> string list \<Rightarrow> bool" where
  "has_keys d ks = list_all (\<lambda>k. d k \<noteq> None) ks"

subsection \<open>\<open>src/utils/helpers.py\<close>\<close>

text \<open>
  \<open>calculate_commission\<close>: \<open>round((amount * percent) / 100, 2)\<close>. The percentage is a
  float; the amount of an order is a float, or the integer \<open>0\<close> of a free order.
\<close>

definition calculate_commission :: "pyval \<Rightarrow> rat \<Rightarrow> py_error + rat" where
  "calculate_commission amount percent =
     (case amount of
        PFloat a \<Rightarrow> Inr (round2 (fdiv (fmul a percent) 100))
      | PInt i \<Rightarrow> Inr (round2 (fdiv (fmul (float_of_int i) percent) 100))
      | _ \<Rightarrow> Inl TypeError)"

subsection \<open>\<open>src/handlers/admin.py\<close>\<close>

text \<open>
  \<open>process_referral_commission\<close>. The notification of the referrer comes last, after the
  credits and the update of the order: \<open>from main import bot\<close>, taken to succeed, and the
  \<open>send_message\<close> inside \<open>try\<close>/\<open>except\<close>, which cannot fail the function.
\<close>

definition process_referral_commission ::
  "rat \<Rightarrow> pydict \<Rightarrow> string \<Rightarrow> database \<Rightarrow> result" where
  "process_referral_commission REFERRAL_COMMISSION_PERCENT order now db =
     (case (getitem order ''user_id'', getitem order ''amount'') of
        (Inr (PInt uid), Inr amount) \<Rightarrow>
          (let (user, db1) = get_user uid now db;
               referrer_id = referred_by user
           in if truthy_id referrer_id
              then (case calculate_commission amount REFERRAL_COMMISSION_PERCENT of
                      Inl e \<Rightarrow> raised db1 [] e
                    | Inr commission \<Rightarrow>
                        (let r = the referrer_id;
                             (_, db2) = add_coins r commission db1;
                             (_, db3) = increment_referral_count r db2
                         in case getitem order ''order_id'' of
                              Inr (PStr oid) \<Rightarrow>
                                (case update_order oid
                                        [''referrer_id'' \<mapsto> PInt r,
                                         ''commission_paid'' \<mapsto> PFloat commission] db3 of
                                   Inl e \<Rightarrow> raised db3 [] e
                                 | Inr (_, db4) \<Rightarrow> returned db4 [CommissionEarned r commission])
                            | Inr _ \<Rightarrow> raised db3 [] TypeError
                            | Inl e \<Rightarrow> raised db3 [] e))
              else returned db1 [])
      | (Inr _, Inr _) \<Rightarrow> raised db [] TypeError
      | (Inl e, _) \<Rightarrow> raised db [] e
      | (_, Inl e) \<Rightarrow> raised db [] e)"

text \<open>
  \<open>admin_approve\<close>. Its last statement is \<open>asyncio.create_task(process_referral_commission(order))\<close>,
  and the module never imports \<open>asyncio\<close>: evaluating the name raises NameError before the
  commission coroutine is created.
\<close>

definition admin_approve :: "int list \<Rightarrow> int \<Rightarrow> string \<Rightarrow> database \<Rightarrow> result" where
  "admin_approve ADMIN_IDS from_user order_id db =
     (if from_user \<notin> set ADMIN_IDS then returned db [Unauthorized]
      else case get_order order_id db of
        Inl e \<Rightarrow> raised db [] e
      | Inr None \<Rightarrow> returned db [OrderNotFound]
      | Inr (Some order) \<Rightarrow>
          (case getitem order ''status'' of
             Inl e \<Rightarrow> raised db [] e
           | Inr st \<Rightarrow>
               if st \<noteq> PStr ''verification'' then returned db [AlreadyProcessed]
               else (case update_order order_id [''status'' \<mapsto> PStr ''approved''] db of
                       Inl e \<Rightarrow> raised db [] e
                     | Inr (_, db1) \<Rightarrow>
                         if has_keys order [''user_id'', ''service_name'', ''plan_duration'', ''amount'']
                         then raised db1 [ApprovedCaption, PaymentApproved] NameError
                         else raised db1 [ApprovedCaption] KeyError)))"





text \<open>\<open>admin_reject\<close>: the order is looked up, and its status is not.\<close>

definition admin_reject :: "int list \<Rightarrow> int \<Rightarrow> string \<Rightarrow> database \<Rightarrow> result" where
  "admin_reject ADMIN_IDS from_user order_id db =
     (if from_user \<notin> set ADMIN_IDS then returned db [Unauthorized]
      else case get_order order_id db of
        Inl e \<Rightarrow> raised db [] e
      | Inr None \<Rightarrow> returned db [OrderNotFound]
      | Inr (Some order) \<Rightarrow>
          (case update_order order_id [''status'' \<mapsto> PStr ''rejected''] db of
             Inl e \<Rightarrow> raised db [] e
           | Inr (_, db1) \<Rightarrow>
               if has_keys order [''user_id'']
               then returned db1 [RejectedCaption, PaymentRejected]
               else raised db1 [RejectedCaption] KeyError))"

subsection \<open>\<open>src/handlers/payment.py\<close>\<close>

text \<open>
  \<open>_create_payment_order\<close> builds the order data below and hands it to \<open>create_order\<close>;
  the QR code and the messages it sends do not touch the store.
\<close>

definition payment_order_data ::
  "int \<Rightarrow> string \<Rightarrow> string \<Rightarrow> string \<Rightarrow> string \<Rightarrow> rat \<Rightarrow> pydict" where
  "payment_order_data from_user username service_id service_name plan_duration price =
     [''user_id'' \<mapsto> PInt from_user,
      ''username'' \<mapsto> PStr username,
      ''service_id'' \<mapsto> PStr service_id,
      ''service_name'' \<mapsto> PStr service_name,
      ''plan_duration'' \<mapsto> PStr plan_duration,
      ''amount'' \<mapsto> PFloat price,
      ''payment_screenshot'' \<mapsto> PNone,
      ''user_details'' \<mapsto> PNone]"

definition create_payment_order ::
  "int \<Rightarrow> string \<Rightarrow> string \<Rightarrow> string \<Rightarrow> string \<Rightarrow> rat \<Rightarrow> string \<Rightarrow> database
     \<Rightarrow> string \<times> database" where
  "create_payment_order from_user username service_id service_name plan_duration price now db =
     create_order
       (payment_order_data from_user username service_id service_name plan_duration price)
       now db"

text \<open>\<open>receive_free_email\<close>: the order data carries its own status.\<close>

definition free_order_data :: "int \<Rightarrow> string \<Rightarrow> string \<Rightarrow> string \<Rightarrow> string \<Rightarrow> pydict" where
  "free_order_data from_user username service_id plan_duration email_text =
     [''user_id'' \<mapsto> PInt from_user,
      ''username'' \<mapsto> PStr username,
      ''service_id'' \<mapsto> PStr service_id,
      ''service_name'' \<mapsto> PStr ''YouTube Premium'',
      ''plan_duration'' \<mapsto> PStr plan_duration,
      ''amount'' \<mapsto> PInt 0,
      ''status'' \<mapsto> PStr ''approved'',
      ''user_details'' \<mapsto> PStr email_text]"

definition receive_free_email ::
  "int list \<Rightarrow> int \<Rightarrow> string \<Rightarrow> string \<Rightarrow> string \<Rightarrow> string \<Rightarrow> string \<Rightarrow> database
     \<Rightarrow> string \<times> result" where
  "receive_free_email ADMIN_IDS from_user username service_id plan_duration email_text now db =
     (let (order_id, db1) =
            create_order (free_order_data from_user username service_id plan_duration email_text)
              now db
      in (order_id, returned db1 (FreeActivated # map (\<lambda>_. FreeForAdmin) ADMIN_IDS)))"

text \<open>
  The expiry timer. The task runs beside the other handlers: whatever they do to the store
  while it sleeps is the function \<open>env\<close>, applied at the wake-up with the time of the
  wake-up. \<open>clock\<close> counts the seconds slept since the timer started.
\<close>

record timer_state =
  clock :: int
  t_db :: database
  t_out :: "(int \<times> notice) list"
  t_err :: "py_error option"

definition sleep :: "int \<Rightarrow> (int \<Rightarrow> database \<Rightarrow> database) \<Rightarrow> timer_state \<Rightarrow> timer_state" where
  "sleep seconds env st =
     st\<lparr>clock := clock st + seconds, t_db := env (clock st + seconds) (t_db st)\<rparr>"

text \<open>The list \<open>warnings\<close>: seconds before expiry, and the message.\<close>

definition warnings :: "(int \<times> notice) list" where
  "warnings = [(300, Warning 5), (180, Warning 3), (60, Warning 1)]"

fun warning_loop ::
  "(int \<Rightarrow> database \<Rightarrow> database) \<Rightarrow> int \<Rightarrow> string \<Rightarrow> (int \<times> notice) list \<Rightarrow> timer_state
     \<Rightarrow> timer_state" where
  "warning_loop env timeout_seconds order_id [] st = st"
| "warning_loop env timeout_seconds order_id ((warning_time, warning_msg) # rest) st =
     (let wait_time = timeout_seconds - warning_time
      in if wait_time > 0
         then (let st1 = sleep wait_time env st
               in case get_order order_id (t_db st1) of
                    Inl e \<Rightarrow> st1\<lparr>t_err := Some e\<rparr>
                  | Inr None \<Rightarrow> warning_loop env timeout_seconds order_id rest st1
                  | Inr (Some order) \<Rightarrow>
                      (case getitem order ''status'' of
                         Inl e \<Rightarrow> st1\<lparr>t_err := Some e\<rparr>
                       | Inr status \<Rightarrow>
                           warning_loop env timeout_seconds order_id rest
                             (if status = PStr ''pending''
                              then st1\<lparr>t_out := t_out st1 @ [(clock st1, warning_msg)]\<rparr>
                              else st1)))
         else warning_loop env timeout_seconds order_id rest st)"

text \<open>The final check, after the last sleep of 60 seconds.\<close>

definition expiry_check :: "string \<Rightarrow> timer_state \<Rightarrow> timer_state" where
  "expiry_check order_id st =
     (case get_order order_id (t_db st) of
        Inl e \<Rightarrow> st\<lparr>t_err := Some e\<rparr>
      | Inr None \<Rightarrow> st
      | Inr (Some order) \<Rightarrow>
          (case getitem order ''status'' of
             Inl e \<Rightarrow> st\<lparr>t_err := Some e\<rparr>
           | Inr status \<Rightarrow>
               if status = PStr ''pending''
               then (case update_order order_id [''status'' \<mapsto> PStr ''expired''] (t_db st) of
                       Inl e \<Rightarrow> st\<lparr>t_err := Some e\<rparr>
                     | Inr (_, db1) \<Rightarrow>
                         st\<lparr>t_db := db1, t_out := t_out st @ [(clock st, PaymentTimeExpired)]\<rparr>)
               else st))"

definition start_payment_timer ::
  "int \<Rightarrow> string \<Rightarrow> (int \<Rightarrow> database \<Rightarrow> database) \<Rightarrow> database \<Rightarrow> timer_state" where
  "start_payment_timer PAYMENT_TIMEOUT_MINUTES order_id env db =
     (let timeout_seconds = PAYMENT_TIMEOUT_MINUTES * 60;
          st1 = warning_loop env timeout_seconds order_id warnings
                  \<lparr>clock = 0, t_db = db, t_out = [], t_err = None\<rparr>
      in if t_err st1 \<noteq> None then st1
         else expiry_check order_id (sleep 60 env st1))"


text \<open>\<open>handle_screenshot\<close>; \<open>fsm_order_id\<close> is the identifier \<open>request_screenshot\<close> stored.\<close>

definition handle_screenshot ::
  "int list \<Rightarrow> string option \<Rightarrow> string \<Rightarrow> database \<Rightarrow> result" where
  "handle_screenshot ADMIN_IDS fsm_order_id file_id db =
     (case fsm_order_id of
        None \<Rightarrow> returned db [OrderNotFound]
      | Some order_id \<Rightarrow>
          (case update_order order_id
                  [''status'' \<mapsto> PStr ''verification'',
                   ''payment_screenshot'' \<mapsto> PStr file_id] db of
             Inl e \<Rightarrow> raised db [] e
           | Inr (_, db1) \<Rightarrow>
               (case get_order order_id db1 of
                  Inl e \<Rightarrow> raised db1 [ScreenshotReceived] e
                | Inr None \<Rightarrow> raised db1 [ScreenshotReceived] TypeError
                | Inr (Some order) \<Rightarrow>
                    if has_keys order [''service_name'', ''plan_duration'', ''amount'']
                    then returned db1
                           (ScreenshotReceived # map (\<lambda>_. VerificationRequest) ADMIN_IDS)
                    else raised db1 [ScreenshotReceived] KeyError)))"


section \<open>Settings and catalog (\<open>src/services/settings.py\<close>)\<close>

text \<open>
  The settings are a dictionary of sections, each a dictionary. A plan's price is a JSON
  number: an integer (what the price editor and the bulk update write) or a float.
\<close>

type_synonym settings_dict = "string \<rightharpoonup> pydict"

datatype pynum = NInt int | NFloat rat

record plan =
  duration :: string
  price :: pynum
  custom_qr_file_id :: "string option"

text \<open>A service; \<open>plans = None\<close> is a service dictionary without the key \<open>plans\<close>.\<close>

record service =
  svc_name :: string
  available :: bool
  plans :: "plan list option"

datatype settings_file = SettingsFile | ServicesFile

record settings_manager =
  settings :: settings_dict
  services :: "(string \<times> service) list"
  settings_on_disk :: "settings_dict file_text option"
  services_on_disk :: "(string \<times> service) list file_text option"

text \<open>
  \<open>_load_json\<close>: the argument is what reading and parsing the file gives; any exception
  is logged and the empty dictionary returned.
\<close>

definition load_json :: "py_error + settings_dict \<Rightarrow> settings_dict" where
  "load_json content = (case content of Inl e \<Rightarrow> Map.empty | Inr d \<Rightarrow> d)"

definition is_payment_enabled :: "settings_dict \<Rightarrow> pyval" where
  "is_payment_enabled st =
     (case (case st ''payment_system'' of None \<Rightarrow> Map.empty | Some d \<Rightarrow> d) ''enabled'' of
        None \<Rightarrow> PBool True
      | Some v \<Rightarrow> v)"

definition get_disabled_message :: "settings_dict \<Rightarrow> pyval" where
  "get_disabled_message st =
     (case (case st ''payment_system'' of None \<Rightarrow> Map.empty | Some d \<Rightarrow> d)
             ''disabled_message'' of
        None \<Rightarrow> PStr ''System Maintenance''
      | Some v \<Rightarrow> v)"

text \<open>The arithmetic of one plan in \<open>bulk_update_prices\<close>.\<close>

definition to_float :: "pynum \<Rightarrow> rat" where
  "to_float n = (case n of NInt i \<Rightarrow> float_of_int i | NFloat x \<Rightarrow> x)"

definition price_factor :: "rat \<Rightarrow> bool \<Rightarrow> rat" where
  "price_factor percentage increase =
     (if increase then fadd 1 (fdiv percentage 100) else fsub 1 (fdiv percentage 100))"

definition new_plan_price :: "rat \<Rightarrow> pynum \<Rightarrow> int" where
  "new_plan_price factor old_price =
     (let new_price = int_of_float (fmul (to_float old_price) factor)
      in if new_price < 1 then 1 else new_price)"

definition update_plan :: "rat \<Rightarrow> plan \<Rightarrow> plan" where
  "update_plan factor p = p\<lparr>price := NInt (new_plan_price factor (price p))\<rparr>"

text \<open>The loop over the services: the new catalog and the count.\<close>

fun update_services :: "rat \<Rightarrow> (string \<times> service) list \<Rightarrow> (string \<times> service) list \<times> nat" where
  "update_services factor [] = ([], 0)"
| "update_services factor ((service_id, svc) # rest) =
     (let (rest', count) = update_services factor rest
      in case plans svc of
           Some ps \<Rightarrow> ((service_id, svc\<lparr>plans := Some (map (update_plan factor) ps)\<rparr>) # rest',
                       count + 1)
         | None \<Rightarrow> ((service_id, svc) # rest', count))"

text \<open>
  \<open>_save_json\<close> opens the file with mode \<open>'w'\<close> and writes the JSON text; any \<open>Exception\<close> is
  logged and the function returns. \<open>SaveFails None\<close>: the failure came before the file was
  opened, which is left as it was (\<open>None\<close> on disk: no file); \<open>SaveFails (Some n)\<close>: the
  file was opened, and \<open>n\<close> characters of the new text reached it. A run in which the task
  is cancelled during the write is not part of this model.
\<close>

datatype save_outcome = Saved | SaveFails "nat option"

definition save_json :: "save_outcome \<Rightarrow> 'a \<Rightarrow> 'a file_text option \<Rightarrow> 'a file_text option" where
  "save_json outcome data on_disk =
     (case outcome of
        Saved \<Rightarrow> Some (Complete data)
      | SaveFails None \<Rightarrow> on_disk
      | SaveFails (Some n) \<Rightarrow> Some (Prefix data n))"

text \<open>\<open>bulk_update_prices\<close>; \<open>io f\<close> is how the write of file \<open>f\<close> goes.\<close>

definition bulk_update_prices ::
  "rat \<Rightarrow> bool \<Rightarrow> string \<Rightarrow> (settings_file \<Rightarrow> save_outcome) \<Rightarrow> settings_manager
     \<Rightarrow> nat \<times> settings_manager" where
  "bulk_update_prices percentage increase now io sm =
     (let factor = price_factor percentage increase;
          (svcs, count) = update_services factor (services sm);
          sm1 = sm\<lparr>services := svcs\<rparr>
      in if count > 0
         then (let pricing = (case settings sm1 ''pricing'' of None \<Rightarrow> Map.empty | Some d \<Rightarrow> d);
                   st = (settings sm1)(''pricing'' \<mapsto> pricing(''last_bulk_update'' \<mapsto> PStr now));
                   sm2 = sm1\<lparr>settings := st\<rparr>;
                   sm3 = sm2\<lparr>services_on_disk :=
                                save_json (io ServicesFile) svcs (services_on_disk sm2)\<rparr>;
                   sm4 = sm3\<lparr>settings_on_disk :=
                                save_json (io SettingsFile) st (settings_on_disk sm3)\<rparr>
               in (count, sm4))
         else (count, sm1))"

section \<open>A concrete run\<close>

text \<open>
  The store of the specification's scenario A: user 999 has started the bot, user 555 has
  started it and then followed 999's referral link, and 555 has ordered a plan for 149.0.
  \<open>FBP000001\<close> is the identifier the order receives; user 1 is the administrator.
\<close>

definition empty_db :: database where
  "empty_db = \<lparr>users = Map.empty, orders = [], users_dirty = False, orders_dirty = False,
               disk = Map.empty, err_log = []\<rparr>"

definition joined_db :: database where
  "joined_db =
     snd (get_user 555 ''2025-01-01T10:05:00''
            (snd (get_user 999 ''2025-01-01T10:00:00'' empty_db)))"

definition referred_db :: database where
  "referred_db = snd (set_referrer 555 999 joined_db)"

definition pending_db :: database where
  "pending_db =
     snd (create_payment_order 555 ''buyer'' ''youtube'' ''YouTube Premium'' ''1 Month'' 149
            ''2025-01-01T10:06:00'' referred_db)"

definition verification_db :: database where
  "verification_db = res_db (handle_screenshot [1] (Some ''FBP000001'') ''photo-1'' pending_db)"

definition approved_db :: database where
  "approved_db = res_db (admin_approve [1] 1 ''FBP000001'' verification_db)"

text \<open>The status stored for an order, if the order and the key exist.\<close>

definition status_of :: "string \<Rightarrow> database \<Rightarrow> pyval option" where
  "status_of order_id db =
     (case get_order order_id db of
        Inr (Some order) \<Rightarrow> order ''status''
      | _ \<Rightarrow> None)"

text \<open>
  A write ends inside \<open>_write_file\<close> when it succeeds or raises an \<open>Exception\<close>. With
  \<open>io_fails\<close> every write meets an I/O error after the file was opened, before any
  character reached it; and \<open>idle_env\<close>: nothing else runs while the timer sleeps.
\<close>

definition caught :: "write_outcome \<Rightarrow> bool" where
  "caught outcome = (case outcome of Cancelled progress \<Rightarrow> False | _ \<Rightarrow> True)"

definition io_fails :: "dbfile \<Rightarrow> write_outcome" where
  "io_fails f = Fails (Some 0)"

definition idle_env :: "int \<Rightarrow> database \<Rightarrow> database" where
  "idle_env t db = db"

text \<open>The approved order as the store holds it, and the two payments of its commission.\<close>

definition order_in :: "database \<Rightarrow> pydict" where
  "order_in db = (case get_order ''FBP000001'' db of Inr (Some order) \<Rightarrow> order | _ \<Rightarrow> Map.empty)"

definition paid_once_db :: database where
  "paid_once_db =
     res_db (process_referral_commission 10 (order_in approved_db) ''2025-01-01T10:09:00''
               approved_db)"

definition paid_twice_db :: database where
  "paid_twice_db =
     res_db (process_referral_commission 10 (order_in paid_once_db) ''2025-01-01T10:10:00''
               paid_once_db)"

text \<open>The two users of the run, as \<open>approved_db\<close> holds them.\<close>

definition buyer :: user where
  "buyer = (new_user 555 ''2025-01-01T10:05:00'')\<lparr>referred_by := Some 999\<rparr>"

definition referrer :: user where
  "referrer = new_user 999 ''2025-01-01T10:00:00''"

text \<open>A user record after one commission \<open>c\<close>; and an order with its commission recorded.\<close>

definition credited :: "rat \<Rightarrow> user \<Rightarrow> user" where
  "credited c r = r\<lparr>coins := fadd (coins r) c, total_earned := fadd (total_earned r) c,
                   total_referrals := total_referrals r + 1\<rparr>"

definition paid_order :: "int \<Rightarrow> rat \<Rightarrow> pydict \<Rightarrow> pydict" where
  "paid_order r c order = order ++ [''referrer_id'' \<mapsto> PInt r, ''commission_paid'' \<mapsto> PFloat c]"

text \<open>
  The range in which no float operation of \<open>bulk_update_prices\<close> overflows (an integer
  too large for a float, or an infinite product, makes Python raise OverflowError).
\<close>

definition moderate :: "rat \<Rightarrow> bool" where
  "moderate x = (\<bar>x\<bar> \<le> 2 ^ 500)"

definition num_value :: "pynum \<Rightarrow> rat" where
  "num_value n = (case n of NInt i \<Rightarrow> of_int i | NFloat x \<Rightarrow> x)"

definition prices_moderate :: "(string \<times> service) list \<Rightarrow> bool" where
  "prices_moderate svcs =
     list_all (\<lambda>(service_id, svc).
        case plans svc of
          None \<Rightarrow> True
        | Some ps \<Rightarrow> list_all (\<lambda>p. moderate (num_value (price p))) ps) svcs"

text \<open>
  A catalog with one service of two plans, priced 100 and 3, and one service without
  plans; every write to disk succeeds.
\<close>

definition io_ok :: "settings_file \<Rightarrow> save_outcome" where
  "io_ok f = Saved"

definition shop :: settings_manager where
  "shop =
     \<lparr>settings = Map.empty,
      services =
        [(''youtube'',
          \<lparr>svc_name = ''YouTube Premium'', available = True,
           plans = Some [\<lparr>duration = ''1 Month'', price = NInt 100, custom_qr_file_id = None\<rparr>,
                         \<lparr>duration = ''1 Week'', price = NInt 3, custom_qr_file_id = None\<rparr>]\<rparr>),
         (''demo'', \<lparr>svc_name = ''Demo'', available = False, plans = None\<rparr>)],
      settings_on_disk = None,
      services_on_disk = None\<rparr>"

section \<open>The flush and its dirty flags\<close>

text \<open>A write that ends inside \<open>_write_file\<close> touches neither table nor flag.\<close>

lemma write_file_caught:
  assumes "caught outcome"
  shows "\<exists>db'. write_file outcome f d db = (True, db')
               \<and> users_dirty db' = users_dirty db \<and> orders_dirty db' = orders_dirty db
               \<and> users db' = users db \<and> orders db' = orders db"
  using assms
  by (cases outcome) (simp_all add: write_file_def caught_def opened_def split: option.splits)

lemma save_dirty_data_clean:
  "\<not> users_dirty db \<Longrightarrow> \<not> orders_dirty db \<Longrightarrow> save_dirty_data io db = (True, db)"
  by (simp add: save_dirty_data_def)

text \<open>
  Claim C2, as the code has it. A write that fails with an I/O error, or with any other
  exception of class \<open>Exception\<close>, ends inside \<open>_write_file\<close>, and \<open>_save_dirty_data\<close>
  resets the flag of each table it tried to write without looking at the outcome: it
  returns with no table marked dirty, whether the writes succeeded or failed, and the next
  flush writes nothing.
\<close>

theorem save_dirty_data_clears_flags:
  assumes "caught (io UsersFile)" and "caught (io OrdersFile)"
  shows "fst (save_dirty_data io db) = True
         \<and> users_dirty (snd (save_dirty_data io db)) = False
         \<and> orders_dirty (snd (save_dirty_data io db)) = False
         \<and> save_dirty_data io' (snd (save_dirty_data io db))
             = (True, snd (save_dirty_data io db))"
proof -
  from write_file_caught [OF assms(1), of UsersFile "UsersData (users db)" db]
  obtain dbu where u: "write_file (io UsersFile) UsersFile (UsersData (users db)) db = (True, dbu)"
    and fu: "orders_dirty dbu = orders_dirty db"
    by auto
  define db1 where "db1 = (if users_dirty db then dbu\<lparr>users_dirty := False\<rparr> else db)"
  have c1: "\<not> users_dirty db1"
    by (simp add: db1_def)
  from write_file_caught [OF assms(2), of OrdersFile "OrdersData (orders db1)" db1]
  obtain dbo where o: "write_file (io OrdersFile) OrdersFile (OrdersData (orders db1)) db1
                         = (True, dbo)"
    and fo: "users_dirty dbo = users_dirty db1"
    by auto
  define db2 where "db2 = (if orders_dirty db1 then dbo\<lparr>orders_dirty := False\<rparr> else db1)"
  have c2: "\<not> users_dirty db2" "\<not> orders_dirty db2"
    using c1 fo by (simp_all add: db2_def)
  have s1: "(if users_dirty db
             then (case write_file (io UsersFile) UsersFile (UsersData (users db)) db of
                     (True, db') \<Rightarrow> (True, db'\<lparr>users_dirty := False\<rparr>)
                   | (False, db') \<Rightarrow> (False, db'))
             else (True, db)) = (True, db1)"
    using u by (simp add: db1_def)
  have "save_dirty_data io db = (True, db2)"
    unfolding save_dirty_data_def s1 using o by (simp add: db2_def)
  then show ?thesis
    using c2 save_dirty_data_clean [OF c2, of io'] by simp
qed

text \<open>
  The theorem at \<open>pending_db\<close>, whose two tables are dirty, with every write failing.
\<close>

theorem save_dirty_data_clears_flags_witness:
  "caught (io_fails UsersFile) \<and> caught (io_fails OrdersFile)
   \<and> fst (save_dirty_data io_fails pending_db) = True
   \<and> users_dirty (snd (save_dirty_data io_fails pending_db)) = False
   \<and> orders_dirty (snd (save_dirty_data io_fails pending_db)) = False
   \<and> save_dirty_data io_fails (snd (save_dirty_data io_fails pending_db))
       = (True, snd (save_dirty_data io_fails pending_db))"
proof -
  have c: "caught (io_fails UsersFile)" "caught (io_fails OrdersFile)"
    by (simp_all add: caught_def io_fails_def)
  from save_dirty_data_clears_flags [OF c, of pending_db io_fails] c
  show ?thesis
    by simp
qed

text \<open>
  Claim C2 as stated fails: both tables of \<open>pending_db\<close> are dirty; a flush whose two writes
  fail with an I/O error logs the two errors and returns with both flags cleared.
\<close>

theorem failed_flush_counterexample:
  "users_dirty pending_db \<and> orders_dirty pending_db
   \<and> fst (save_dirty_data io_fails pending_db) = True
   \<and> err_log (snd (save_dirty_data io_fails pending_db)) = [UsersFile, OrdersFile]
   \<and> users_dirty (snd (save_dirty_data io_fails pending_db)) = False
   \<and> orders_dirty (snd (save_dirty_data io_fails pending_db)) = False"
  by code_simp

section \<open>The status of a new order\<close>

text \<open>
  Claim C5, as the code has it. \<open>create_order\<close> stores the status \<open>pending\<close> unless the
  order data brings a \<open>status\<close> of its own, which then replaces it: the orders of
  \<open>_create_payment_order\<close> start as \<open>pending\<close>, the free orders of \<open>receive_free_email\<close>
  are stored as \<open>approved\<close>.
\<close>

theorem create_order_status:
  "last (orders (snd (create_order order_data now db))) ''status''
     = Some (case order_data ''status'' of None \<Rightarrow> PStr ''pending'' | Some v \<Rightarrow> v)
   \<and> last (orders (snd (create_payment_order u un sid sn pd pr now db))) ''status''
     = Some (PStr ''pending'')
   \<and> last (orders (res_db (snd (receive_free_email A u un sid pd em now db)))) ''status''
     = Some (PStr ''approved'')"
  by (simp add: create_order_def create_payment_order_def receive_free_email_def
        payment_order_data_def free_order_data_def returned_def Let_def map_add_def
        split: option.split)

text \<open>Claim C5 as stated fails for the free order of \<open>receive_free_email\<close>.\<close>

theorem free_order_counterexample:
  "last (orders (res_db (snd (receive_free_email [1] 555 ''buyer'' ''youtube'' ''1 Month''
            ''buyer@gmail.com'' ''2025-01-01T10:06:00'' referred_db)))) ''status''
     = Some (PStr ''approved'')"
  by code_simp

section \<open>The referrer is written once\<close>

text \<open>
  Claim C9, as the code has it. \<open>set_referrer\<close> tests the truth value of the stored
  referrer, so a stored \<open>0\<close> counts as unset. After a successful \<open>set_referrer(U, R1)\<close> with
  \<open>R1\<close> other than 0, every later \<open>set_referrer(U, R2)\<close> returns false and leaves the store,
  and with it the referrer \<open>R1\<close>, as it was.
\<close>

theorem set_referrer_first_write_wins:
  assumes "set_referrer U R1 db = (True, db1)" and "R1 \<noteq> 0"
  shows "set_referrer U R2 db1 = (False, db1)
         \<and> map_option referred_by (users db1 U) = Some (Some R1)"
  using assms
  by (auto simp: set_referrer_def truthy_id_def split: option.splits if_splits)

text \<open>The theorem at user 555, first referrer 999, second referrer 111.\<close>

theorem set_referrer_first_write_wins_witness:
  "set_referrer 555 999 joined_db = (True, referred_db) \<and> (999::int) \<noteq> 0
   \<and> set_referrer 555 111 referred_db = (False, referred_db)
   \<and> map_option referred_by (users referred_db 555) = Some (Some 999)"
proof -
  have "fst (set_referrer 555 999 joined_db)"
    by code_simp
  then have h1: "set_referrer 555 999 joined_db = (True, referred_db)"
    by (simp add: referred_db_def prod_eq_iff)
  have h2: "(999::int) \<noteq> 0"
    by simp
  show ?thesis
    using h1 h2 set_referrer_first_write_wins [OF h1 h2, of 111] by simp
qed

text \<open>
  Claim C9 as stated fails at \<open>R1 = 0\<close> (the link \<open>/start ref_0\<close>): the first call succeeds
  and stores 0, the second call succeeds too and stores 999.
\<close>

theorem set_referrer_zero_counterexample:
  "map_option referred_by (users joined_db 555) = Some None
   \<and> fst (set_referrer 555 0 joined_db)
   \<and> fst (set_referrer 555 999 (snd (set_referrer 555 0 joined_db)))
   \<and> map_option referred_by
        (users (snd (set_referrer 555 999 (snd (set_referrer 555 0 joined_db)))) 555)
      = Some (Some 999)"
  by code_simp

section \<open>Payments without a configuration\<close>

text \<open>
  Claim C10. Settings without a \<open>payment_system\<close> section report the payment system as
  enabled, with the message \<open>System Maintenance\<close>; a settings file that cannot be read
  loads as the empty dictionary, which is such a settings value.
\<close>

theorem payment_fails_open:
  assumes "st ''payment_system'' = None"
  shows "is_payment_enabled st = PBool True
         \<and> get_disabled_message st = PStr ''System Maintenance''
         \<and> is_payment_enabled (load_json (Inl e)) = PBool True
         \<and> get_disabled_message (load_json (Inl e)) = PStr ''System Maintenance''"
  using assms by (simp add: is_payment_enabled_def get_disabled_message_def load_json_def)

text \<open>The theorem at the settings loaded from an unreadable file.\<close>

theorem payment_fails_open_witness:
  "load_json (Inl IOError) ''payment_system'' = None
   \<and> is_payment_enabled (load_json (Inl IOError)) = PBool True
   \<and> get_disabled_message (load_json (Inl IOError)) = PStr ''System Maintenance''"
proof -
  have h: "load_json (Inl IOError) ''payment_system'' = None"
    by (simp add: load_json_def)
  show ?thesis
    using h payment_fails_open [of "load_json (Inl IOError)" IOError] by simp
qed

section \<open>Rejection\<close>

text \<open>
  Claim C3 at a failing input. The order \<open>FBP000001\<close> of \<open>approved_db\<close> is approved. The
  administrator's rejection of it is carried out: the status becomes \<open>rejected\<close> and the
  rejection notices go out, where \<open>admin_approve\<close> on the same store answers that the order
  is already processed.
\<close>

theorem admin_reject_approved_order:
  "status_of ''FBP000001'' approved_db = Some (PStr ''approved'')
   \<and> status_of ''FBP000001'' (res_db (admin_reject [1] 1 ''FBP000001'' approved_db))
       = Some (PStr ''rejected'')
   \<and> res_out (admin_reject [1] 1 ''FBP000001'' approved_db) = [RejectedCaption, PaymentRejected]
   \<and> res_out (admin_approve [1] 1 ''FBP000001'' approved_db) = [AlreadyProcessed]"
  by code_simp

section \<open>The expiry timer\<close>

text \<open>
  Claim C6 at a failing input. With the default timeout of 10 minutes and an order nobody
  touches, the timer sleeps 300, then 420, then 540, then 60 seconds, one sleep after the
  other: the three warnings go out 300, 720 and 1260 seconds after the start and the order
  expires after 1320 seconds, not after 600.
\<close>

theorem timer_default_schedule:
  "t_out (start_payment_timer 10 ''FBP000001'' idle_env pending_db)
     = [(300, Warning 5), (720, Warning 3), (1260, Warning 1), (1320, PaymentTimeExpired)]
   \<and> clock (start_payment_timer 10 ''FBP000001'' idle_env pending_db) = 1320
   \<and> status_of ''FBP000001'' (t_db (start_payment_timer 10 ''FBP000001'' idle_env pending_db))
       = Some (PStr ''expired'')"
  by code_simp

section \<open>Lookup and update of orders\<close>

lemma update_order_users:
  "update_order oid upd db = Inr (b, db') \<Longrightarrow> users db' = users db"
  by (auto simp: update_order_def split: sum.splits option.splits)

lemma find_order_id:
  "find_order os oid = Inr (Some order) \<Longrightarrow> order ''order_id'' = Some (PStr oid)"
  by (induction os) (auto simp: getitem_def split: option.splits if_splits)

lemma update_first_found:
  assumes "find_order os oid = Inr (Some order)" and "upd ''order_id'' = None"
  shows "\<exists>os'. update_first os oid upd = Inr (Some os')
               \<and> find_order os' oid = Inr (Some (order ++ upd))"
  using assms
proof (induction os)
  case Nil
  then show ?case by simp
next
  case (Cons o os)
  then show ?case
    by (auto simp: getitem_def map_add_def split: option.splits if_splits)
qed

lemma update_order_found:
  assumes "get_order oid db = Inr (Some order)" and "upd ''order_id'' = None"
  shows "\<exists>db'. update_order oid upd db = Inr (True, db')
               \<and> get_order oid db' = Inr (Some (order ++ upd))
               \<and> users db' = users db"
proof -
  from update_first_found [of "orders db" oid order upd] assms
  obtain os' where "update_first (orders db) oid upd = Inr (Some os')"
    and "find_order os' oid = Inr (Some (order ++ upd))"
    by (auto simp: get_order_def)
  then show ?thesis
    by (simp add: update_order_def get_order_def)
qed

section \<open>The referral commission\<close>

text \<open>
  One run of \<open>process_referral_commission\<close> for an order whose buyer \<open>uid\<close> has a referrer
  \<open>R\<close> (not 0) with a user record \<open>r\<close>: the user table changes at \<open>R\<close> only, and the order
  in the store gains the two commission fields. Neither depends on the fields
  \<open>referrer_id\<close> and \<open>commission_paid\<close> the order may already have.
\<close>

lemma prc_users:
  assumes "order ''user_id'' = Some (PInt uid)" and "order ''amount'' = Some (PFloat a)"
    and "users db uid = Some u" and "referred_by u = Some R" and "R \<noteq> 0"
    and "users db R = Some r"
  shows "users (res_db (process_referral_commission pct order now db))
           = (users db)(R \<mapsto> credited (round2 (fdiv (fmul a pct) 100)) r)"
  using assms
  by (auto simp: process_referral_commission_def getitem_def get_user_def truthy_id_def
        calculate_commission_def add_coins_def increment_referral_count_def credited_def
        returned_def raised_def Let_def dest: update_order_users
        split: sum.splits option.splits pyval.splits prod.splits)

lemma prc_order:
  assumes "order ''user_id'' = Some (PInt uid)" and "order ''amount'' = Some (PFloat a)"
    and "users db uid = Some u" and "referred_by u = Some R" and "R \<noteq> 0"
    and "users db R = Some r" and "get_order oid db = Inr (Some order)"
  shows "get_order oid (res_db (process_referral_commission pct order now db))
           = Inr (Some (paid_order R (round2 (fdiv (fmul a pct) 100)) order))"
proof -
  let ?c = "round2 (fdiv (fmul a pct) 100)"
  let ?upd = "[''referrer_id'' \<mapsto> PInt R, ''commission_paid'' \<mapsto> PFloat ?c]"
  let ?db3 = "snd (increment_referral_count R (snd (add_coins R ?c db)))"
  have id: "order ''order_id'' = Some (PStr oid)"
    using assms(7) by (auto simp: get_order_def dest: find_order_id)
  have "get_order oid ?db3 = Inr (Some order)"
    using assms(6,7)
    by (simp add: get_order_def add_coins_def increment_referral_count_def)
  from update_order_found [OF this, of ?upd]
  obtain db' where "update_order oid ?upd ?db3 = Inr (True, db')"
    and "get_order oid db' = Inr (Some (order ++ ?upd))"
    by auto
  then show ?thesis
    using assms(1-6) id
    by (auto simp: process_referral_commission_def getitem_def get_user_def truthy_id_def
        calculate_commission_def returned_def Let_def paid_order_def split: prod.splits)
qed

text \<open>The floats of the run: 149.0 * 10.0 / 100 rounded to two decimals is the float 14.9.\<close>

lemma commission_149: "round2 (fdiv (fmul 149 10) 100) = 8387954305977549 / 562949953421312"
  by code_simp

lemma fl_149: "fl (149 / 10) = 8387954305977549 / 562949953421312"
  by code_simp

lemma fadd_149_once: "fadd 0 (8387954305977549 / 562949953421312) = 8387954305977549 / 562949953421312"
  by code_simp

lemma fadd_149_twice:
  "fadd (8387954305977549 / 562949953421312) (8387954305977549 / 562949953421312)
     = 8387954305977549 / 281474976710656"
  by code_simp

text \<open>The store after the approval.\<close>

lemma get_order_order_in:
  "status_of ''FBP000001'' db = Some v \<Longrightarrow> get_order ''FBP000001'' db = Inr (Some (order_in db))"
  by (auto simp: status_of_def order_in_def split: sum.splits option.splits)

lemma approved_db_status: "status_of ''FBP000001'' approved_db = Some (PStr ''approved'')"
  by code_simp

lemma approved_db_facts:
  "order_in approved_db ''user_id'' = Some (PInt 555)"
  "order_in approved_db ''amount'' = Some (PFloat 149)"
  "users approved_db 555 = Some buyer"
  "referred_by buyer = Some 999"
  "users approved_db 999 = Some referrer"
  by code_simp+

text \<open>
  What \<open>process_referral_commission\<close> does once it runs. For an order of float amount
  \<open>A\<close> whose buyer has referrer \<open>R\<close> (a referrer identifier other than 0, with a user
  record \<open>r\<close>), the commission is \<open>round((A * percent) / 100, 2)\<close> in float arithmetic; the
  function adds it to the coin balance and to the lifetime earnings of \<open>R\<close> (the float sum
  of Python's \<open>+=\<close>) and adds 1 to the referral count of \<open>R\<close>; \<open>add_coins\<close> updates the
  two amounts in one step; and for \<open>A = 149.0\<close>, \<open>percent = 10\<close> the commission is the
  float 14.9.
\<close>

lemma commission_credit:
  assumes "order ''user_id'' = Some (PInt uid)" and "order ''amount'' = Some (PFloat A)"
    and "users db uid = Some u" and "referred_by u = Some R" and "R \<noteq> 0"
    and "users db R = Some r"
  shows "calculate_commission (PFloat A) pct = Inr (round2 (fdiv (fmul A pct) 100))
         \<and> users (res_db (process_referral_commission pct order now db)) R
             = Some (r\<lparr>coins := fadd (coins r) (round2 (fdiv (fmul A pct) 100)),
                       total_earned := fadd (total_earned r) (round2 (fdiv (fmul A pct) 100)),
                       total_referrals := total_referrals r + 1\<rparr>)
         \<and> users (snd (add_coins R c db)) R
             = Some (r\<lparr>coins := fadd (coins r) c, total_earned := fadd (total_earned r) c\<rparr>)
         \<and> calculate_commission (PFloat 149) 10 = Inr (fl (149 / 10))"
  using assms prc_users [OF assms, of pct now]
  by (simp add: calculate_commission_def credited_def add_coins_def commission_149 fl_149)

text \<open>At the approved order of the run, user 999 would be credited 14.9.\<close>

lemma commission_credit_run:
  "order_in approved_db ''user_id'' = Some (PInt 555)
   \<and> order_in approved_db ''amount'' = Some (PFloat 149)
   \<and> users approved_db 555 = Some buyer \<and> referred_by buyer = Some 999 \<and> (999::int) \<noteq> 0
   \<and> users approved_db 999 = Some referrer
   \<and> map_option coins (users paid_once_db 999) = Some (8387954305977549 / 562949953421312)
   \<and> map_option total_earned (users paid_once_db 999)
       = Some (8387954305977549 / 562949953421312)
   \<and> map_option total_referrals (users paid_once_db 999) = Some 1"
proof -
  note f = approved_db_facts
  have nz: "(999::int) \<noteq> 0"
    by simp
  from commission_credit [OF f(1) f(2) f(3) f(4) nz f(5), of 10 "''2025-01-01T10:09:00''"]
  have "users paid_once_db 999
          = Some (referrer\<lparr>coins := 8387954305977549 / 562949953421312,
                           total_earned := 8387954305977549 / 562949953421312,
                           total_referrals := 1\<rparr>)"
    by (simp add: paid_once_db_def commission_149 referrer_def new_user_def fadd_149_once)
  then show ?thesis
    using f nz by simp
qed

text \<open>
  Claim C7 at a failing input. The buyer 555 of order \<open>FBP000001\<close> was referred by user
  999, and the administrator approves the order. \<open>admin_approve\<close> stores the status
  \<open>approved\<close>, sends its two messages and then ends with NameError at
  \<open>asyncio.create_task(process_referral_commission(order))\<close>, the only call of the
  commission payment in the program: after the approval user 999 has no coins, no
  earnings and no referral, and the order carries no \<open>commission_paid\<close>.
\<close>

theorem approval_without_commission:
  "status_of ''FBP000001'' verification_db = Some (PStr ''verification'')
   \<and> map_option referred_by (users verification_db 555) = Some (Some 999)
   \<and> res_out (admin_approve [1] 1 ''FBP000001'' verification_db)
       = [ApprovedCaption, PaymentApproved]
   \<and> res_err (admin_approve [1] 1 ''FBP000001'' verification_db) = Some NameError
   \<and> status_of ''FBP000001'' approved_db = Some (PStr ''approved'')
   \<and> map_option coins (users approved_db 999) = Some 0
   \<and> map_option total_earned (users approved_db 999) = Some 0
   \<and> map_option total_referrals (users approved_db 999) = Some 0
   \<and> order_in approved_db ''commission_paid'' = None"
  by code_simp

text \<open>The user table and the order after one and after two payments of the commission.\<close>

lemma paid_once_users:
  "users paid_once_db
     = (users approved_db)(999 \<mapsto> credited (8387954305977549 / 562949953421312) referrer)"
  using prc_users [OF approved_db_facts(1-4) _ approved_db_facts(5), of 10 "''2025-01-01T10:09:00''"]
  by (simp add: paid_once_db_def commission_149)

lemma paid_once_order:
  "get_order ''FBP000001'' paid_once_db
     = Inr (Some (paid_order 999 (8387954305977549 / 562949953421312) (order_in approved_db)))"
  using prc_order [OF approved_db_facts(1-4) _ approved_db_facts(5)
      get_order_order_in [OF approved_db_status], of 10 "''2025-01-01T10:09:00''"]
  by (simp add: paid_once_db_def commission_149)

lemma paid_twice_users:
  "users paid_twice_db 999
     = Some (credited (8387954305977549 / 562949953421312)
              (credited (8387954305977549 / 562949953421312) referrer))"
proof -
  let ?c = "8387954305977549 / 562949953421312 :: rat"
  have o: "order_in paid_once_db = paid_order 999 ?c (order_in approved_db)"
    using paid_once_order by (simp add: order_in_def)
  have k1: "order_in paid_once_db ''user_id'' = Some (PInt 555)"
    and k2: "order_in paid_once_db ''amount'' = Some (PFloat 149)"
    using approved_db_facts(1,2) by (simp_all add: o paid_order_def map_add_def)
  have h3: "users paid_once_db 555 = Some buyer"
    using approved_db_facts(3) by (simp add: paid_once_users)
  have h6: "users paid_once_db 999 = Some (credited ?c referrer)"
    by (simp add: paid_once_users)
  show ?thesis
    using prc_users [OF k1 k2 h3 approved_db_facts(4) _ h6, of 10 "''2025-01-01T10:10:00''"]
    by (simp add: paid_twice_db_def commission_149)
qed

text \<open>
  Claim C1, as the code has it. \<open>process_referral_commission\<close> never reads
  \<open>commission_paid\<close>. After a first run the order in the store has \<open>commission_paid\<close> set,
  and a second run for that order credits the referrer again: coin balance and lifetime
  earnings receive the commission a second time and the referral count is 2 higher than
  before the first run.
\<close>

theorem commission_paid_twice:
  assumes "order ''user_id'' = Some (PInt uid)" and "order ''amount'' = Some (PFloat A)"
    and "users db uid = Some u" and "referred_by u = Some R" and "R \<noteq> 0"
    and "users db R = Some r" and "get_order oid db = Inr (Some order)"
  shows "let c = round2 (fdiv (fmul A pct) 100);
             db1 = res_db (process_referral_commission pct order now db);
             db2 = res_db (process_referral_commission pct (paid_order R c order) now' db1)
         in get_order oid db1 = Inr (Some (paid_order R c order))
            \<and> paid_order R c order ''commission_paid'' = Some (PFloat c)
            \<and> users db2 R = Some (r\<lparr>coins := fadd (fadd (coins r) c) c,
                                     total_earned := fadd (fadd (total_earned r) c) c,
                                     total_referrals := total_referrals r + 2\<rparr>)"
proof -
  define c where "c = round2 (fdiv (fmul A pct) 100)"
  define db1 where "db1 = res_db (process_referral_commission pct order now db)"
  have u1: "users db1 = (users db)(R \<mapsto> credited c r)"
    using prc_users [OF assms(1-6), of pct now] by (simp add: c_def db1_def)
  have o1: "get_order oid db1 = Inr (Some (paid_order R c order))"
    using prc_order [OF assms(1-7), of pct now] by (simp add: c_def db1_def)
  have k1: "paid_order R c order ''user_id'' = Some (PInt uid)"
    and k2: "paid_order R c order ''amount'' = Some (PFloat A)"
    and k3: "paid_order R c order ''commission_paid'' = Some (PFloat c)"
    using assms(1,2) by (simp_all add: paid_order_def map_add_def)
  obtain u' where h3: "users db1 uid = Some u'" and h4: "referred_by u' = Some R"
    using u1 assms(3,4,6) by (cases "uid = R") (auto simp: credited_def)
  have h6: "users db1 R = Some (credited c r)"
    using u1 by simp
  have "users (res_db (process_referral_commission pct (paid_order R c order) now' db1)) R
          = Some (credited c (credited c r))"
    using prc_users [OF k1 k2 h3 h4 assms(5) h6, of pct now'] by (simp add: c_def)
  then show ?thesis
    using o1 k3 by (simp add: credited_def Let_def c_def [symmetric] db1_def [symmetric])
qed

text \<open>The theorem at the approved order of the run, paid at 10:09 and again at 10:10.\<close>

theorem commission_paid_twice_witness:
  "order_in approved_db ''user_id'' = Some (PInt 555)
   \<and> order_in approved_db ''amount'' = Some (PFloat 149)
   \<and> users approved_db 555 = Some buyer \<and> referred_by buyer = Some 999 \<and> (999::int) \<noteq> 0
   \<and> users approved_db 999 = Some referrer
   \<and> get_order ''FBP000001'' approved_db = Inr (Some (order_in approved_db))
   \<and> users (res_db (process_referral_commission 10
               (paid_order 999 (8387954305977549 / 562949953421312) (order_in approved_db))
               ''2025-01-01T10:10:00'' paid_once_db)) 999
       = Some (referrer\<lparr>coins := 8387954305977549 / 281474976710656,
                        total_earned := 8387954305977549 / 281474976710656,
                        total_referrals := 2\<rparr>)"
proof -
  note f = approved_db_facts
  note g = get_order_order_in [OF approved_db_status]
  have nz: "(999::int) \<noteq> 0"
    by simp
  from commission_paid_twice [OF f(1) f(2) f(3) f(4) nz f(5) g,
      of 10 "''2025-01-01T10:09:00''" "''2025-01-01T10:10:00''"]
  have "users (res_db (process_referral_commission 10
               (paid_order 999 (8387954305977549 / 562949953421312) (order_in approved_db))
               ''2025-01-01T10:10:00'' paid_once_db)) 999
       = Some (referrer\<lparr>coins := 8387954305977549 / 281474976710656,
                        total_earned := 8387954305977549 / 281474976710656,
                        total_referrals := 2\<rparr>)"
    by (simp add: Let_def paid_once_db_def commission_149 referrer_def new_user_def
          fadd_149_once fadd_149_twice)
  then show ?thesis
    using f g nz by simp
qed

text \<open>
  Claim C1 as stated fails: the second run for order \<open>FBP000001\<close>, whose
  \<open>commission_paid\<close> is set by then, takes user 999 from 14.9 coins to 29.8 and from one
  referral to two.
\<close>

theorem commission_twice_counterexample:
  "map_option coins (users approved_db 999) = Some 0
   \<and> map_option coins (users paid_once_db 999) = Some (8387954305977549 / 562949953421312)
   \<and> order_in paid_once_db ''commission_paid''
       = Some (PFloat (8387954305977549 / 562949953421312))
   \<and> map_option coins (users paid_twice_db 999) = Some (8387954305977549 / 281474976710656)
   \<and> map_option total_earned (users paid_twice_db 999)
       = Some (8387954305977549 / 281474976710656)
   \<and> map_option total_referrals (users paid_once_db 999) = Some 1
   \<and> map_option total_referrals (users paid_twice_db 999) = Some 2"
  using paid_once_order approved_db_facts(5)
  by (simp add: paid_once_users paid_twice_users order_in_def paid_order_def credited_def
        referrer_def new_user_def fadd_149_once fadd_149_twice)

section \<open>The bulk price update\<close>

text \<open>
  \<open>int(x)\<close> truncates towards zero, and the clamp to 1 hides the difference from rounding
  down: a product below zero is clamped either way.
\<close>

lemma new_plan_price_floor:
  "new_plan_price factor old_price = max 1 \<lfloor>fmul (to_float old_price) factor\<rfloor>"
proof (cases "0 \<le> fmul (to_float old_price) factor")
  case True
  then show ?thesis
    by (simp add: new_plan_price_def int_of_float_def Let_def max_def)
next
  case False
  then have "\<lceil>fmul (to_float old_price) factor\<rceil> \<le> 0"
    and "\<lfloor>fmul (to_float old_price) factor\<rfloor> \<le> 0"
    by (simp_all add: ceiling_le_iff floor_le_iff)
  with False show ?thesis
    by (simp add: new_plan_price_def int_of_float_def Let_def max_def)
qed

lemma update_plan_floor:
  "update_plan factor
     = (\<lambda>p. p\<lparr>price := NInt (max 1 \<lfloor>fmul (to_float (price p)) factor\<rfloor>)\<rparr>)"
  by (rule ext) (simp add: update_plan_def new_plan_price_floor)

lemma update_services_fst:
  "fst (update_services factor svcs)
     = map (\<lambda>(service_id, svc).
              (service_id,
               case plans svc of
                 None \<Rightarrow> svc
               | Some ps \<Rightarrow> svc\<lparr>plans := Some (map (update_plan factor) ps)\<rparr>)) svcs"
  by (induction svcs) (auto split: prod.splits option.splits)

lemma update_services_snd:
  "snd (update_services factor svcs)
     = length (filter (\<lambda>(service_id, svc). plans svc \<noteq> None) svcs)"
proof (induction svcs)
  case Nil
  show ?case by simp
next
  case (Cons a svcs)
  obtain service_id svc where a: "a = (service_id, svc)"
    by (cases a)
  show ?case
    using Cons by (cases "plans svc") (simp_all add: a case_prod_beta)
qed

lemma bulk_services:
  "services (snd (bulk_update_prices percentage increase now io sm))
     = fst (update_services (price_factor percentage increase) (services sm))"
  by (simp add: bulk_update_prices_def Let_def split: prod.splits)

lemma bulk_count:
  "fst (bulk_update_prices percentage increase now io sm)
     = snd (update_services (price_factor percentage increase) (services sm))"
  by (simp add: bulk_update_prices_def Let_def split: prod.splits)

text \<open>A decrease by 100 percent: the factor is \<open>1 - 100/100 = 0.0\<close>.\<close>

lemma factor_full_discount: "price_factor 100 False = 0"
  by code_simp

lemma new_plan_price_zero: "new_plan_price 0 old_price = 1"
  by (simp add: new_plan_price_def int_of_float_def fmul_def fl_def)

lemma update_plan_zero: "update_plan 0 = (\<lambda>p. p\<lparr>price := NInt 1\<rparr>)"
  by (rule ext) (simp add: update_plan_def new_plan_price_zero)

text \<open>
  The product is a float product. At price 100 and 15 percent the factor is the float
  next below 1.15, the product is 114.99999999999999, and the new price is 114.
\<close>

lemma float_product_below: "int_of_float (fmul (float_of_int 100) (fadd 1 (fdiv 15 100))) = 114"
  by code_simp

text \<open>
  Claim C8, as the code has it. For prices and a percentage in the range where no float
  overflows,
  \<open>bulk_update_prices\<close> replaces the price of every plan of every service that has plans
  by \<open>old_price * factor\<close> rounded down and clamped to at least 1, where
  \<open>factor = 1 + percentage/100\<close> for an increase and \<open>1 - percentage/100\<close> for a
  decrease (factor and product in float arithmetic); it returns the number of services
  that have plans; and a decrease by 100 percent leaves every such plan at price 1.
\<close>

theorem bulk_update_prices_result:
  assumes "prices_moderate (services sm)" and "moderate percentage"
  shows "services (snd (bulk_update_prices percentage increase now io sm))
           = map (\<lambda>(service_id, svc).
                (service_id,
                 case plans svc of
                   None \<Rightarrow> svc
                 | Some ps \<Rightarrow>
                     svc\<lparr>plans := Some (map (\<lambda>p.
                       p\<lparr>price := NInt (max 1 \<lfloor>fmul (to_float (price p))
                                                 (price_factor percentage increase)\<rfloor>)\<rparr>) ps)\<rparr>))
               (services sm)
         \<and> price_factor percentage True = fadd 1 (fdiv percentage 100)
         \<and> price_factor percentage False = fsub 1 (fdiv percentage 100)
         \<and> fst (bulk_update_prices percentage increase now io sm)
             = length (filter (\<lambda>(service_id, svc). plans svc \<noteq> None) (services sm))
         \<and> services (snd (bulk_update_prices 100 False now io sm))
             = map (\<lambda>(service_id, svc).
                  (service_id,
                   case plans svc of
                     None \<Rightarrow> svc
                   | Some ps \<Rightarrow> svc\<lparr>plans := Some (map (\<lambda>p. p\<lparr>price := NInt 1\<rparr>) ps)\<rparr>))
                 (services sm)"
proof (intro conjI)
  show "services (snd (bulk_update_prices percentage increase now io sm))
           = map (\<lambda>(service_id, svc).
                (service_id,
                 case plans svc of
                   None \<Rightarrow> svc
                 | Some ps \<Rightarrow>
                     svc\<lparr>plans := Some (map (\<lambda>p.
                       p\<lparr>price := NInt (max 1 \<lfloor>fmul (to_float (price p))
                                                 (price_factor percentage increase)\<rfloor>)\<rparr>) ps)\<rparr>))
               (services sm)"
    by (simp only: bulk_services update_services_fst update_plan_floor)
  show "price_factor percentage True = fadd 1 (fdiv percentage 100)"
    by (simp add: price_factor_def)
  show "price_factor percentage False = fsub 1 (fdiv percentage 100)"
    by (simp add: price_factor_def)
  show "fst (bulk_update_prices percentage increase now io sm)
          = length (filter (\<lambda>(service_id, svc). plans svc \<noteq> None) (services sm))"
    by (simp only: bulk_count update_services_snd)
  show "services (snd (bulk_update_prices 100 False now io sm))
          = map (\<lambda>(service_id, svc).
               (service_id,
                case plans svc of
                  None \<Rightarrow> svc
                | Some ps \<Rightarrow> svc\<lparr>plans := Some (map (\<lambda>p. p\<lparr>price := NInt 1\<rparr>) ps)\<rparr>))
              (services sm)"
    by (simp only: bulk_services update_services_fst factor_full_discount update_plan_zero)
qed

text \<open>
  The theorem at the catalog \<open>shop\<close>: an increase by 50 percent takes the prices 100 and 3
  to 150 and 4 and counts one service; a decrease by 100 percent takes both to 1.
\<close>

lemma shop_moderate: "prices_moderate (services shop)" "moderate 50" "moderate 100"
  by code_simp+

lemma shop_increase:
  "map (\<lambda>(service_id, svc).
                (service_id,
                 case plans svc of
                   None \<Rightarrow> svc
                 | Some ps \<Rightarrow>
                     svc\<lparr>plans := Some (map (\<lambda>p.
                       p\<lparr>price := NInt (max 1 \<lfloor>fmul (to_float (price p))
                                                 (price_factor 50 True)\<rfloor>)\<rparr>) ps)\<rparr>))
               (services shop)
   = [(''youtube'',
          \<lparr>svc_name = ''YouTube Premium'', available = True,
           plans = Some [\<lparr>duration = ''1 Month'', price = NInt 150, custom_qr_file_id = None\<rparr>,
                         \<lparr>duration = ''1 Week'', price = NInt 4, custom_qr_file_id = None\<rparr>]\<rparr>),
         (''demo'', \<lparr>svc_name = ''Demo'', available = False, plans = None\<rparr>)]"
  by code_simp

theorem bulk_update_prices_result_witness:
  "prices_moderate (services shop) \<and> moderate 50
   \<and> services (snd (bulk_update_prices 50 True ''2025-01-02T09:00:00'' io_ok shop))
       = [(''youtube'',
          \<lparr>svc_name = ''YouTube Premium'', available = True,
           plans = Some [\<lparr>duration = ''1 Month'', price = NInt 150, custom_qr_file_id = None\<rparr>,
                         \<lparr>duration = ''1 Week'', price = NInt 4, custom_qr_file_id = None\<rparr>]\<rparr>),
         (''demo'', \<lparr>svc_name = ''Demo'', available = False, plans = None\<rparr>)]
   \<and> fst (bulk_update_prices 50 True ''2025-01-02T09:00:00'' io_ok shop) = 1
   \<and> services (snd (bulk_update_prices 100 False ''2025-01-02T09:00:00'' io_ok shop))
       = [(''youtube'',
          \<lparr>svc_name = ''YouTube Premium'', available = True,
           plans = Some [\<lparr>duration = ''1 Month'', price = NInt 1, custom_qr_file_id = None\<rparr>,
                         \<lparr>duration = ''1 Week'', price = NInt 1, custom_qr_file_id = None\<rparr>]\<rparr>),
         (''demo'', \<lparr>svc_name = ''Demo'', available = False, plans = None\<rparr>)]"
proof -
  note r = bulk_update_prices_result [OF shop_moderate(1) shop_moderate(2),
      of True "''2025-01-02T09:00:00''" io_ok]
  have a: "services (snd (bulk_update_prices 50 True ''2025-01-02T09:00:00'' io_ok shop))
       = [(''youtube'',
          \<lparr>svc_name = ''YouTube Premium'', available = True,
           plans = Some [\<lparr>duration = ''1 Month'', price = NInt 150, custom_qr_file_id = None\<rparr>,
                         \<lparr>duration = ''1 Week'', price = NInt 4, custom_qr_file_id = None\<rparr>]\<rparr>),
         (''demo'', \<lparr>svc_name = ''Demo'', available = False, plans = None\<rparr>)]"
    using r shop_increase by simp
  have b: "fst (bulk_update_prices 50 True ''2025-01-02T09:00:00'' io_ok shop) = 1"
    using r by (simp add: shop_def)
  have c: "services (snd (bulk_update_prices 100 False ''2025-01-02T09:00:00'' io_ok shop))
       = [(''youtube'',
          \<lparr>svc_name = ''YouTube Premium'', available = True,
           plans = Some [\<lparr>duration = ''1 Month'', price = NInt 1, custom_qr_file_id = None\<rparr>,
                         \<lparr>duration = ''1 Week'', price = NInt 1, custom_qr_file_id = None\<rparr>]\<rparr>),
         (''demo'', \<lparr>svc_name = ''Demo'', available = False, plans = None\<rparr>)]"
    using r by (simp add: shop_def)
  show ?thesis
    using shop_moderate a b c by simp
qed

text \<open>
  Claim C8 as stated fails when the product is read as the exact one. An increase by 15
  percent takes the plan priced 100 to 114 and leaves the plan priced 3 at 3: the float
  factor is just below 1.15 and the float product is 114.99999999999999, where
  \<open>100 * (1 + 15/100)\<close> rounded down is 115.
\<close>

theorem bulk_increase_counterexample:
  "services (snd (bulk_update_prices 15 True ''2025-01-02T09:00:00'' io_ok shop))
     = [(''youtube'',
         \<lparr>svc_name = ''YouTube Premium'', available = True,
          plans = Some [\<lparr>duration = ''1 Month'', price = NInt 114, custom_qr_file_id = None\<rparr>,
                        \<lparr>duration = ''1 Week'', price = NInt 3, custom_qr_file_id = None\<rparr>]\<rparr>),
        (''demo'', \<lparr>svc_name = ''Demo'', available = False, plans = None\<rparr>)]
   \<and> \<lfloor>(100::rat) * (1 + 15 / 100)\<rfloor> = 115"
  by code_simp

section \<open>Orders that have reached a final status\<close>














end
